theory Spec2Isabelle
  imports Complex_Main
begin

section \<open>Values exchanged with the libraries\<close>

text \<open>
  The script \<^verbatim>\<open>scripts/main.py\<close> is one coroutine, \<^verbatim>\<open>main\<close>, that hands the text
  extracted by the crawler to \<^verbatim>\<open>json.loads\<close>, builds one \<^verbatim>\<open>LeaderboardEntry\<close> per item,
  prints a summary and writes the entries with \<^verbatim>\<open>json.dump\<close>.

  Python strings are modelled by their UTF-8 bytes (\<^typ>\<open>string\<close>), Python integers by
  \<^typ>\<open>int\<close>. A Python float is either one of the three special values or a finite
  double, which is named by the rational number it denotes.
\<close>

datatype pyfloat = Finite rat | PosInf | NegInf | NaN

text \<open>
  What \<^verbatim>\<open>json.loads\<close> returns: \<^verbatim>\<open>None\<close>, a bool, an int, a float, a str, a list or a
  dict. A dict keeps its items in insertion order and its keys are strings.
\<close>

datatype json =
    JNull
  | JBool bool
  | JInt int
  | JFloat pyfloat
  | JStr string
  | JArr "json list"
  | JObj "(string \<times> json) list"

text \<open>The reasons pydantic gives for refusing the value of one field.\<close>

datatype field_error =
    Missing
  | IntType
  | IntParsing
  | IntFromFloat
  | IntParsingSize
  | FiniteNumber
  | FloatType
  | FloatParsing
  | StringType

text \<open>
  The exceptions that can surface inside the \<^verbatim>\<open>try\<close> block of \<^verbatim>\<open>main\<close>. A
  \<^verbatim>\<open>ValidationError\<close> carries its cause: one line per refused field, with the key
  under which the field was looked up. \<open>OSError\<close> is the failure of \<^verbatim>\<open>open\<close>;
  \<open>OtherError\<close> stands for whatever else \<^verbatim>\<open>json.loads\<close> may raise.
\<close>

datatype exn =
    JSONDecodeError
  | TypeError
  | ValidationError "(string \<times> field_error) list"
  | OSError
  | OtherError

text \<open>
  Library behaviour that this script only calls and that is kept as a parameter:
  \<^item> \<open>json_loads\<close> is \<^verbatim>\<open>json.loads\<close> on a text;
  \<^item> \<open>float_repr\<close> is \<^verbatim>\<open>float.__repr__\<close> on a finite double;
  \<^item> \<open>lax_str_int\<close> is what pydantic makes of a string offered for an \<^verbatim>\<open>int\<close> field
    when the string is not a plain run of decimal digits (signs, blanks, underscores and
    a trailing \<^verbatim>\<open>.0\<close> are treated differently from release to release);
  \<^item> \<open>lax_str_float\<close> is what pydantic makes of a string offered for a \<^verbatim>\<open>float\<close>
    field.
\<close>

record pylib =
  json_loads :: "string \<Rightarrow> exn + json"
  float_repr :: "rat \<Rightarrow> string"
  lax_str_int :: "string \<Rightarrow> int option"
  lax_str_float :: "string \<Rightarrow> pyfloat option"

section \<open>The schema: \<^verbatim>\<open>LeaderboardEntry\<close>\<close>

text \<open>
  \<^verbatim>\<open>
  class LeaderboardEntry(BaseModel):
      rank: int = Field(...)
      model: str = Field(...)
      arena_score: float = Field(..., alias="arena score")
      ci_95: str = Field(..., alias="95% CI")
      votes: int = Field(...)
      organization: str = Field(...)
      license: str = Field(...)
  \<close>
\<close>

record LeaderboardEntry =
  rank :: int
  model :: string
  arena_score :: pyfloat
  ci_95 :: string
  votes :: int
  organization :: string
  license :: string

subsection \<open>Lax validation of one value\<close>

definition is_digit :: "char \<Rightarrow> bool" where
  "is_digit c \<longleftrightarrow> (48::nat) \<le> of_char c \<and> of_char c \<le> (57::nat)"

definition digit_val :: "char \<Rightarrow> nat" where
  "digit_val c = of_char c - 48"

definition dec_value :: "string \<Rightarrow> nat" where
  "dec_value s = foldl (\<lambda>acc c. 10 * acc + digit_val c) 0 s"

text \<open>
  A string for an \<^verbatim>\<open>int\<close> field. A non-empty run of at most 4300 decimal digits is read
  as the number it spells; every other string is left to \<open>lax_str_int\<close>.
\<close>

definition str_as_int :: "pylib \<Rightarrow> string \<Rightarrow> int option" where
  "str_as_int lib s =
     (if s \<noteq> [] \<and> list_all is_digit s \<and> length s \<le> 4300
      then Some (int (dec_value s))
      else lax_str_int lib s)"

text \<open>
  A float for an \<^verbatim>\<open>int\<close> field: refused when it is not finite, when it has a fractional
  part, and when it lies outside the open interval \<open>(-2^63, 2^63)\<close>.
\<close>

definition float_as_int :: "pyfloat \<Rightarrow> field_error + int" where
  "float_as_int x =
     (case x of
        Finite r \<Rightarrow>
          if r \<noteq> of_int \<lfloor>r\<rfloor> then Inl IntFromFloat
          else if - (2 ^ 63) < \<lfloor>r\<rfloor> \<and> \<lfloor>r\<rfloor> < 2 ^ 63 then Inr \<lfloor>r\<rfloor>
          else Inl IntParsingSize
      | _ \<Rightarrow> Inl FiniteNumber)"

fun bit_length :: "nat \<Rightarrow> nat" where
  "bit_length n = (if n = 0 then 0 else Suc (bit_length (n div 2)))"

declare bit_length.simps [simp del]

text \<open>
  \<^verbatim>\<open>float(i)\<close> for a Python int: the nearest double, ties to the even mantissa;
  \<open>None\<close> stands for the \<^verbatim>\<open>OverflowError\<close> of an int too large for a double.
\<close>

definition float_of_int :: "int \<Rightarrow> pyfloat option" where
  "float_of_int i =
     (let a = nat \<bar>i\<bar>; n = bit_length a in
      if n \<le> 53 then Some (Finite (of_int i))
      else
        let sh = n - 53;
            q = a div 2 ^ sh;
            r = a mod 2 ^ sh;
            half = 2 ^ (sh - 1);
            q' = (if half < r \<or> (r = half \<and> odd q) then q + 1 else q);
            v = q' * 2 ^ sh
        in if 2 ^ 1024 \<le> v then None
           else Some (Finite (of_int (if i < 0 then - int v else int v))))"

definition validate_int :: "pylib \<Rightarrow> json \<Rightarrow> field_error + int" where
  "validate_int lib v =
     (case v of
        JInt i \<Rightarrow> Inr i
      | JBool b \<Rightarrow> Inr (if b then 1 else 0)
      | JStr s \<Rightarrow> (case str_as_int lib s of Some i \<Rightarrow> Inr i | None \<Rightarrow> Inl IntParsing)
      | JFloat x \<Rightarrow> float_as_int x
      | _ \<Rightarrow> Inl IntType)"

definition validate_float :: "pylib \<Rightarrow> json \<Rightarrow> field_error + pyfloat" where
  "validate_float lib v =
     (case v of
        JFloat x \<Rightarrow> Inr x
      | JStr s \<Rightarrow> (case lax_str_float lib s of Some x \<Rightarrow> Inr x | None \<Rightarrow> Inl FloatParsing)
      | JInt i \<Rightarrow> (case float_of_int i of Some x \<Rightarrow> Inr x | None \<Rightarrow> Inl FloatType)
      | JBool b \<Rightarrow> Inr (Finite (if b then 1 else 0))
      | _ \<Rightarrow> Inl FloatType)"

definition validate_str :: "json \<Rightarrow> field_error + string" where
  "validate_str v = (case v of JStr s \<Rightarrow> Inr s | _ \<Rightarrow> Inl StringType)"

subsection \<open>Building an entry: \<^verbatim>\<open>LeaderboardEntry(**item)\<close>\<close>

text \<open>
  A field is looked up under its alias when it has one and under its name otherwise;
  the lookup is case-sensitive. A key that is absent is reported as \<open>Missing\<close>.
\<close>

definition validate_field ::
  "(json \<Rightarrow> field_error + 'a) \<Rightarrow> (string \<times> json) list \<Rightarrow> string \<Rightarrow> field_error + 'a" where
  "validate_field val kvs key =
     (case map_of kvs key of None \<Rightarrow> Inl Missing | Some v \<Rightarrow> val v)"

definition field_errors :: "string \<Rightarrow> field_error + 'a \<Rightarrow> (string \<times> field_error) list" where
  "field_errors key r = (case r of Inl e \<Rightarrow> [(key, e)] | Inr _ \<Rightarrow> [])"

text \<open>
  \<^verbatim>\<open>**item\<close> raises \<^verbatim>\<open>TypeError\<close> unless \<open>item\<close> is a dict. Every field is validated, in
  the order of the class body, and all refusals are gathered into one
  \<^verbatim>\<open>ValidationError\<close>; keys that belong to no field are ignored.
\<close>

definition LeaderboardEntry_init :: "pylib \<Rightarrow> json \<Rightarrow> exn + LeaderboardEntry" where
  "LeaderboardEntry_init lib item =
     (case item of
        JObj kvs \<Rightarrow>
          let r1 = validate_field (validate_int lib) kvs ''rank'';
              r2 = validate_field validate_str kvs ''model'';
              r3 = validate_field (validate_float lib) kvs ''arena score'';
              r4 = validate_field validate_str kvs ''95% CI'';
              r5 = validate_field (validate_int lib) kvs ''votes'';
              r6 = validate_field validate_str kvs ''organization'';
              r7 = validate_field validate_str kvs ''license'';
              failed = Inl (ValidationError
                (field_errors ''rank'' r1 @ field_errors ''model'' r2 @
                 field_errors ''arena score'' r3 @ field_errors ''95% CI'' r4 @
                 field_errors ''votes'' r5 @ field_errors ''organization'' r6 @
                 field_errors ''license'' r7))
          in (case r1 of Inl _ \<Rightarrow> failed | Inr v1 \<Rightarrow>
              (case r2 of Inl _ \<Rightarrow> failed | Inr v2 \<Rightarrow>
              (case r3 of Inl _ \<Rightarrow> failed | Inr v3 \<Rightarrow>
              (case r4 of Inl _ \<Rightarrow> failed | Inr v4 \<Rightarrow>
              (case r5 of Inl _ \<Rightarrow> failed | Inr v5 \<Rightarrow>
              (case r6 of Inl _ \<Rightarrow> failed | Inr v6 \<Rightarrow>
              (case r7 of Inl _ \<Rightarrow> failed | Inr v7 \<Rightarrow>
                 Inr \<lparr>rank = v1, model = v2, arena_score = v3, ci_95 = v4,
                      votes = v5, organization = v6, license = v7\<rparr>)))))))
      | _ \<Rightarrow> Inl TypeError)"

text \<open>\<^verbatim>\<open>item.model_dump(by_alias=True)\<close>: the fields in the order of the class body.\<close>

definition model_dump :: "LeaderboardEntry \<Rightarrow> json" where
  "model_dump e =
     JObj [(''rank'', JInt (rank e)),
           (''model'', JStr (model e)),
           (''arena score'', JFloat (arena_score e)),
           (''95% CI'', JStr (ci_95 e)),
           (''votes'', JInt (votes e)),
           (''organization'', JStr (organization e)),
           (''license'', JStr (license e))]"

text \<open>The keys that \<^verbatim>\<open>LeaderboardEntry(**item)\<close> reads and \<open>model_dump\<close> writes.\<close>

definition schema_keys :: "string list" where
  "schema_keys =
     [''rank'', ''model'', ''arena score'', ''95% CI'', ''votes'', ''organization'',
      ''license'']"

section \<open>\<^verbatim>\<open>json.dump(..., indent=2, ensure_ascii=False)\<close>\<close>

definition hex_digit :: "nat \<Rightarrow> char" where
  "hex_digit d = (if d < 10 then char_of (48 + d) else char_of (87 + d))"

text \<open>
  \<^verbatim>\<open>ESCAPE_DCT\<close> of \<^verbatim>\<open>json.encoder\<close>: the quote, the backslash and the control
  characters below \<^verbatim>\<open>0x20\<close> are escaped, every other character is copied.
\<close>

definition escape_char :: "char \<Rightarrow> string" where
  "escape_char c =
     (if c = CHR 0x5C then [CHR 0x5C, CHR 0x5C]
      else if c = CHR 0x22 then [CHR 0x5C, CHR 0x22]
      else if c = CHR 0x08 then [CHR 0x5C, CHR ''b'']
      else if c = CHR 0x0C then [CHR 0x5C, CHR ''f'']
      else if c = CHR 0x0A then [CHR 0x5C, CHR ''n'']
      else if c = CHR 0x0D then [CHR 0x5C, CHR ''r'']
      else if c = CHR 0x09 then [CHR 0x5C, CHR ''t'']
      else if (of_char c :: nat) < 32
        then [CHR 0x5C, CHR ''u'', CHR ''0'', CHR ''0'',
              hex_digit (of_char c div 16), hex_digit (of_char c mod 16)]
      else [c])"

definition encode_basestring :: "string \<Rightarrow> string" where
  "encode_basestring s = CHR 0x22 # concat (map escape_char s) @ [CHR 0x22]"

fun digits_of :: "nat \<Rightarrow> string" where
  "digits_of n =
     (if n < 10 then [char_of (48 + n)]
      else digits_of (n div 10) @ [char_of (48 + n mod 10)])"

declare digits_of.simps [simp del]

definition intstr :: "int \<Rightarrow> string" where
  "intstr i = (if i < 0 then CHR ''-'' # digits_of (nat (- i)) else digits_of (nat i))"

definition floatstr :: "pylib \<Rightarrow> pyfloat \<Rightarrow> string" where
  "floatstr lib x =
     (case x of
        NaN \<Rightarrow> ''NaN''
      | PosInf \<Rightarrow> ''Infinity''
      | NegInf \<Rightarrow> ''-Infinity''
      | Finite r \<Rightarrow> float_repr lib r)"

definition newline_indent :: "nat \<Rightarrow> nat \<Rightarrow> string" where
  "newline_indent ind lvl = CHR 0x0A # replicate (ind * lvl) CHR '' ''"

fun join :: "string \<Rightarrow> string list \<Rightarrow> string" where
  "join sep [] = []"
| "join sep [x] = x"
| "join sep (x # y # ys) = x @ sep @ join sep (y # ys)"

text \<open>
  \<^verbatim>\<open>_make_iterencode\<close> with an indent of \<open>ind\<close> spaces; the item separator is then
  \<^verbatim>\<open>","\<close> and the key separator \<^verbatim>\<open>": "\<close>. The chunks written to the file are joined.
\<close>

fun iterencode :: "pylib \<Rightarrow> nat \<Rightarrow> json \<Rightarrow> nat \<Rightarrow> string" where
  "iterencode lib ind (JStr s) lvl = encode_basestring s"
| "iterencode lib ind JNull lvl = ''null''"
| "iterencode lib ind (JBool b) lvl = (if b then ''true'' else ''false'')"
| "iterencode lib ind (JInt i) lvl = intstr i"
| "iterencode lib ind (JFloat x) lvl = floatstr lib x"
| "iterencode lib ind (JArr lst) lvl =
     (if lst = [] then ''[]''
      else ''['' @ newline_indent ind (lvl + 1) @
           join ('','' @ newline_indent ind (lvl + 1))
             (map (\<lambda>value. iterencode lib ind value (lvl + 1)) lst) @
           newline_indent ind lvl @ '']'')"
| "iterencode lib ind (JObj dct) lvl =
     (if dct = [] then ''{}''
      else ''{'' @ newline_indent ind (lvl + 1) @
           join ('','' @ newline_indent ind (lvl + 1))
             (map (\<lambda>kv. encode_basestring (fst kv) @ '': '' @
                         iterencode lib ind (snd kv) (lvl + 1)) dct) @
           newline_indent ind lvl @ ''}'')"

definition json_dump :: "pylib \<Rightarrow> json \<Rightarrow> string" where
  "json_dump lib obj = iterencode lib 2 obj 0"

section \<open>The pipeline: \<^verbatim>\<open>main\<close>\<close>

text \<open>The result of \<^verbatim>\<open>crawler.arun\<close>, as far as \<^verbatim>\<open>main\<close> reads it.\<close>

record crawl_result =
  success :: bool
  extracted_content :: "string option"
  error_message :: "string option"

text \<open>
  One constructor per \<^verbatim>\<open>print\<close> statement of \<^verbatim>\<open>main\<close>, with the values it
  interpolates; \<open>UsageReport\<close> is what \<^verbatim>\<open>llm_strategy.show_usage()\<close> prints.
\<close>

datatype message =
    Extracted nat
  | EntryLine string string pyfloat
  | Saved
  | UsageReport
  | InvalidJSON
  | Unexpected exn
  | ScrapeError "string option"

text \<open>The line printed by the \<^verbatim>\<open>except Exception\<close> clause.\<close>

definition unexpected_report :: "message \<Rightarrow> bool" where
  "unexpected_report m = (case m of Unexpected e \<Rightarrow> True | _ \<Rightarrow> False)"

text \<open>
  What the run can change: the console, and the file \<^verbatim>\<open>leaderboard_data.json\<close>
  (\<open>None\<close> while it does not exist). \<open>writable\<close> tells whether
  \<^verbatim>\<open>open(OUTPUT_FILE, "w")\<close> succeeds.
\<close>

record world =
  console :: "message list"
  output_file :: "string option"
  writable :: bool

definition print :: "message \<Rightarrow> world \<Rightarrow> world" where
  "print m w = w\<lparr>console := console w @ [m]\<rparr>"

text \<open>
  \<^verbatim>\<open>for item in raw_data\<close>: a list yields its elements, a dict its keys, a string its
  characters; anything else is not iterable. The items of a string are strings again,
  which \<^verbatim>\<open>**item\<close> refuses at the first of them, so that only the emptiness of the string
  is ever observed.
\<close>

definition py_iter :: "json \<Rightarrow> exn + json list" where
  "py_iter raw_data =
     (case raw_data of
        JArr lst \<Rightarrow> Inr lst
      | JObj dct \<Rightarrow> Inr (map (\<lambda>kv. JStr (fst kv)) dct)
      | JStr s \<Rightarrow> Inr (map (\<lambda>c. JStr [c]) s)
      | _ \<Rightarrow> Inl TypeError)"

text \<open>
  \<^verbatim>\<open>[LeaderboardEntry(**item) for item in raw_data]\<close>: the first item that raises ends
  the comprehension.
\<close>

fun validate_all :: "pylib \<Rightarrow> json list \<Rightarrow> exn + LeaderboardEntry list" where
  "validate_all lib [] = Inr []"
| "validate_all lib (item # items) =
     (case LeaderboardEntry_init lib item of
        Inl e \<Rightarrow> Inl e
      | Inr entry \<Rightarrow>
          (case validate_all lib items of
             Inl e \<Rightarrow> Inl e
           | Inr entries \<Rightarrow> Inr (entry # entries)))"

definition entry_line :: "LeaderboardEntry \<Rightarrow> message" where
  "entry_line entry = EntryLine (model entry) (organization entry) (arena_score entry)"

text \<open>
  The body of the \<^verbatim>\<open>try\<close> block: the exception that left it, if any, and the world
  at that moment.
\<close>

definition process :: "pylib \<Rightarrow> crawl_result \<Rightarrow> world \<Rightarrow> exn option \<times> world" where
  "process lib result w =
     (case (case extracted_content result of
              None \<Rightarrow> Inl TypeError
            | Some txt \<Rightarrow> json_loads lib txt) of
        Inl e \<Rightarrow> (Some e, w)
      | Inr raw_data \<Rightarrow>
          (case py_iter raw_data of
             Inl e \<Rightarrow> (Some e, w)
           | Inr items \<Rightarrow>
               (case validate_all lib items of
                  Inl e \<Rightarrow> (Some e, w)
                | Inr validated_data \<Rightarrow>
                    let w1 = print (Extracted (length validated_data)) w;
                        w2 = foldl (\<lambda>w' entry. print (entry_line entry) w') w1
                               (take 3 validated_data)
                    in if \<not> writable w2 then (Some OSError, w2)
                       else
                         let w3 = w2\<lparr>output_file :=
                                    Some (json_dump lib (JArr (map model_dump validated_data)))\<rparr>;
                             w4 = print Saved w3;
                             w5 = print UsageReport w4
                         in (None, w5))))"

definition main :: "pylib \<Rightarrow> crawl_result \<Rightarrow> world \<Rightarrow> world" where
  "main lib result w =
     (if success result then
        (case process lib result w of
           (None, w') \<Rightarrow> w'
         | (Some JSONDecodeError, w') \<Rightarrow> print InvalidJSON w'
         | (Some e, w') \<Rightarrow> print (Unexpected e) w')
      else print (ScrapeError (error_message result)) w)"

section \<open>The layout of the written file\<close>

text \<open>
  The text expected in \<^verbatim>\<open>leaderboard_data.json\<close>, spelled out from the description of
  the artifact: a JSON array, one object per entry in the order of the entries, two
  spaces of indentation per level, the score under \<^verbatim>\<open>"arena score"\<close> and the
  confidence interval under \<^verbatim>\<open>"95% CI"\<close>. It is compared with \<open>json_dump\<close> below.
\<close>

definition object_text :: "pylib \<Rightarrow> LeaderboardEntry \<Rightarrow> string" where
  \<open>object_text lib e =
     ''{\<newline>    "rank": '' @ intstr (rank e) @
     '',\<newline>    "model": '' @ encode_basestring (model e) @
     '',\<newline>    "arena score": '' @ floatstr lib (arena_score e) @
     '',\<newline>    "95% CI": '' @ encode_basestring (ci_95 e) @
     '',\<newline>    "votes": '' @ intstr (votes e) @
     '',\<newline>    "organization": '' @ encode_basestring (organization e) @
     '',\<newline>    "license": '' @ encode_basestring (license e) @
     ''\<newline>  }''\<close>

definition array_text :: "pylib \<Rightarrow> LeaderboardEntry list \<Rightarrow> string" where
  \<open>array_text lib es =
     (if es = [] then ''[]''
      else ''[\<newline>  '' @ join '',\<newline>  '' (map (object_text lib) es) @ ''\<newline>]'')\<close>

section \<open>Sample runs\<close>

text \<open>
  One instance of the library, for running the pipeline on concrete inputs.
  \<open>sample_float_repr\<close> prints a finite decimal expansion of at most 17 fractional
  digits; it agrees with \<^verbatim>\<open>float.__repr__\<close> on the doubles used below. The instance
  accepts no string for a number beyond plain digit runs. Its \<open>sample_loads\<close> is
  \<^verbatim>\<open>json.loads\<close> tabulated on the texts of this section: each text is listed with the
  value that \<^verbatim>\<open>json.loads\<close> returns for it, and a text that is not listed is answered
  with \<^verbatim>\<open>JSONDecodeError\<close>, which is the answer for \<open>truncated_text\<close>, the only
  unlisted text that is run.
\<close>

fun frac_digits :: "nat \<Rightarrow> rat \<Rightarrow> string" where
  "frac_digits 0 f = []"
| "frac_digits (Suc k) f =
     (let d = \<lfloor>f * 10\<rfloor> in
      char_of (48 + nat d) #
        (if f * 10 = of_int d then [] else frac_digits k (f * 10 - of_int d)))"

definition sample_float_repr :: "rat \<Rightarrow> string" where
  "sample_float_repr r =
     (if r < 0 then ''-'' else []) @ digits_of (nat \<lfloor>\<bar>r\<bar>\<rfloor>) @ ''.'' @
     frac_digits 17 (\<bar>r\<bar> - of_int \<lfloor>\<bar>r\<bar>\<rfloor>)"

text \<open>The scenario payload of the specification, and what \<^verbatim>\<open>json.loads\<close> makes of it.\<close>

definition scenario_text :: string where
  \<open>scenario_text =
     ''[{"Rank":1,"Model":"X","arena score":1300.5,"95% CI":"+2/-2","votes":500,"organization":"Acme","License":"MIT"}]''\<close>

definition scenario_record :: json where
  "scenario_record =
     JObj [(''Rank'', JInt 1), (''Model'', JStr ''X''),
           (''arena score'', JFloat (Finite 1300.5)), (''95% CI'', JStr ''+2/-2''),
           (''votes'', JInt 500), (''organization'', JStr ''Acme''),
           (''License'', JStr ''MIT'')]"

text \<open>The same payload with the keys spelled as the schema spells them.\<close>

definition schema_text :: string where
  \<open>schema_text =
     ''[{"rank":1,"model":"X","arena score":1300.5,"95% CI":"+2/-2","votes":500,"organization":"Acme","license":"MIT"}]''\<close>

definition schema_record :: json where
  "schema_record =
     JObj [(''rank'', JInt 1), (''model'', JStr ''X''),
           (''arena score'', JFloat (Finite 1300.5)), (''95% CI'', JStr ''+2/-2''),
           (''votes'', JInt 500), (''organization'', JStr ''Acme''),
           (''license'', JStr ''MIT'')]"

definition schema_entry :: LeaderboardEntry where
  "schema_entry =
     \<lparr>rank = 1, model = ''X'', arena_score = Finite 1300.5, ci_95 = ''+2/-2'',
      votes = 500, organization = ''Acme'', license = ''MIT''\<rparr>"

text \<open>A batch whose second record lacks fields and whose third has a number as model.\<close>

definition batch_text :: string where
  \<open>batch_text =
     ''[{"rank":1,"model":"X","arena score":1300.5,"95% CI":"+2/-2","votes":500,"organization":"Acme","license":"MIT"},{"rank":2,"model":"Y"},{"rank":3,"model":7,"arena score":1200.0,"95% CI":"+3/-3","votes":10,"organization":"Org","license":"MIT"}]''\<close>

definition short_record :: json where
  "short_record = JObj [(''rank'', JInt 2), (''model'', JStr ''Y'')]"

definition mistyped_record :: json where
  "mistyped_record =
     JObj [(''rank'', JInt 3), (''model'', JInt 7),
           (''arena score'', JFloat (Finite 1200)), (''95% CI'', JStr ''+3/-3''),
           (''votes'', JInt 10), (''organization'', JStr ''Org''),
           (''license'', JStr ''MIT'')]"

text \<open>
  Four well-formed records; the organization of the last one has a letter outside
  ASCII (\<^verbatim>\<open>0xC3 0xBC\<close> is the UTF-8 form of u with diaeresis).
\<close>

definition ranking_text :: string where
  \<open>ranking_text =
     ''[{"rank":1,"model":"A","arena score":1400.0,"95% CI":"+5/-5","votes":100,"organization":"OrgA","license":"MIT"},'' @
     ''{"rank":2,"model":"B","arena score":1390.5,"95% CI":"+4/-6","votes":90,"organization":"OrgB","license":"Apache 2.0"},'' @
     ''{"rank":3,"model":"C","arena score":1380.25,"95% CI":"+3/-3","votes":80,"organization":"OrgC","license":"Proprietary"},'' @
     ''{"rank":4,"model":"D","arena score":1370.0,"95% CI":"+6/-7","votes":70,"organization":"Z'' @
     [CHR 0xC3, CHR 0xBC] @ ''rich AI","license":"MIT"}]''\<close>

definition ranking_entries :: "LeaderboardEntry list" where
  "ranking_entries =
     [\<lparr>rank = 1, model = ''A'', arena_score = Finite 1400, ci_95 = ''+5/-5'',
       votes = 100, organization = ''OrgA'', license = ''MIT''\<rparr>,
      \<lparr>rank = 2, model = ''B'', arena_score = Finite 1390.5, ci_95 = ''+4/-6'',
       votes = 90, organization = ''OrgB'', license = ''Apache 2.0''\<rparr>,
      \<lparr>rank = 3, model = ''C'', arena_score = Finite 1380.25, ci_95 = ''+3/-3'',
       votes = 80, organization = ''OrgC'', license = ''Proprietary''\<rparr>,
      \<lparr>rank = 4, model = ''D'', arena_score = Finite 1370, ci_95 = ''+6/-7'',
       votes = 70, organization = ''Z'' @ [CHR 0xC3, CHR 0xBC] @ ''rich AI'',
       license = ''MIT''\<rparr>]"

text \<open>
  The parsed form of \<open>ranking_text\<close>: the dicts have their keys in the order of the
  text, which here is the order of the class body.
\<close>

definition ranking_records :: "json list" where
  "ranking_records = map model_dump ranking_entries"

text \<open>The file that a run on \<open>schema_text\<close> writes, as a text of its own.\<close>

definition written_text :: string where
  \<open>written_text =
     ''[\<newline>  {\<newline>    "rank": 1,\<newline>    "model": "X",\<newline>    "arena score": 1300.5,'' @
     ''\<newline>    "95% CI": "+2/-2",\<newline>    "votes": 500,\<newline>    "organization": "Acme",'' @
     ''\<newline>    "license": "MIT"\<newline>  }\<newline>]''\<close>

text \<open>A record with two keys that belong to no field.\<close>

definition extras_record :: json where
  "extras_record =
     JObj [(''url'', JStr ''https://example.org/x''), (''rank'', JInt 1),
           (''model'', JStr ''X''), (''arena score'', JFloat (Finite 1300.5)),
           (''95% CI'', JStr ''+2/-2''), (''votes'', JInt 500),
           (''organization'', JStr ''Acme''), (''license'', JStr ''MIT''),
           (''Knowledge Cutoff'', JNull)]"

text \<open>A record with digit strings for rank and votes and an int for the score.\<close>

definition coerced_record :: json where
  "coerced_record =
     JObj [(''rank'', JStr ''1''), (''model'', JStr ''X''),
           (''arena score'', JInt 1300), (''95% CI'', JStr ''+2/-2''),
           (''votes'', JStr ''500''), (''organization'', JStr ''Acme''),
           (''license'', JStr ''MIT'')]"

text \<open>A text cut off in the middle, and a text that is a number.\<close>

definition truncated_text :: string where
  \<open>truncated_text = ''[{"rank": 1, "model": "X", "arena sc''\<close>

definition number_text :: string where
  "number_text = ''42''"

definition sample_loads :: "string \<Rightarrow> exn + json" where
  "sample_loads txt =
     (if txt = scenario_text then Inr (JArr [scenario_record])
      else if txt = schema_text then Inr (JArr [schema_record])
      else if txt = batch_text then Inr (JArr [schema_record, short_record, mistyped_record])
      else if txt = number_text then Inr (JInt 42)
      else if txt = ranking_text then Inr (JArr ranking_records)
      else if txt = written_text then Inr (JArr [schema_record])
      else Inl JSONDecodeError)"

definition sample_lib :: pylib where
  "sample_lib =
     \<lparr>json_loads = sample_loads, float_repr = sample_float_repr,
      lax_str_int = (\<lambda>s. None), lax_str_float = (\<lambda>s. None)\<rparr>"

definition ok_result :: "string \<Rightarrow> crawl_result" where
  "ok_result txt = \<lparr>success = True, extracted_content = Some txt, error_message = None\<rparr>"

definition fresh_world :: world where
  "fresh_world = \<lparr>console = [], output_file = None, writable = True\<rparr>"

definition old_world :: world where
  "old_world = \<lparr>console = [], output_file = Some ''[]'', writable = True\<rparr>"

section \<open>Properties of the building blocks\<close>

lemmas sample_texts =
  scenario_text_def schema_text_def batch_text_def number_text_def ranking_text_def
  written_text_def truncated_text_def


lemma foldl_print:
  "foldl (\<lambda>w' x. w'\<lparr>console := console w' @ [f x]\<rparr>) w xs = w\<lparr>console := console w @ map f xs\<rparr>"
  by (induction xs arbitrary: w) simp_all


lemma validate_all_first_failure:
  assumes "\<forall>g\<in>set good. \<exists>v. LeaderboardEntry_init lib g = Inr v"
    and "LeaderboardEntry_init lib bad = Inl e"
  shows "validate_all lib (good @ bad # rest) = Inl e"
  using assms by (induction good) auto

lemma first_failure_exists:
  assumes "\<exists>r\<in>set items. \<exists>e. LeaderboardEntry_init lib r = Inl e"
  shows "\<exists>good bad rest e. items = good @ bad # rest \<and>
           (\<forall>g\<in>set good. \<exists>v. LeaderboardEntry_init lib g = Inr v) \<and>
           LeaderboardEntry_init lib bad = Inl e"
proof -
  let ?P = "\<lambda>r. \<exists>e. LeaderboardEntry_init lib r = Inl e"
  from assms obtain good bad rest
    where split: "items = good @ bad # rest" and bad: "?P bad"
      and good: "\<forall>g\<in>set good. \<not> ?P g"
    using split_list_first_prop[of items ?P] by blast
  from bad obtain e where e: "LeaderboardEntry_init lib bad = Inl e" by blast
  have "\<forall>g\<in>set good. \<exists>v. LeaderboardEntry_init lib g = Inr v"
  proof
    fix g assume "g \<in> set good"
    with good have "\<not> ?P g" by blast
    then show "\<exists>v. LeaderboardEntry_init lib g = Inr v"
      by (cases "LeaderboardEntry_init lib g") auto
  qed
  with split e show ?thesis by blast
qed

subsection \<open>The outcomes of the \<^verbatim>\<open>try\<close> block\<close>

lemma process_validation_raises:
  assumes "extracted_content result = Some txt"
    and "json_loads lib txt = Inr raw_data"
    and "py_iter raw_data = Inr items"
    and "validate_all lib items = Inl e"
  shows "process lib result w = (Some e, w)"
  using assms by (simp add: process_def)

lemma process_validated:
  assumes "extracted_content result = Some txt"
    and "json_loads lib txt = Inr raw_data"
    and "py_iter raw_data = Inr items"
    and "validate_all lib items = Inr es"
  shows "process lib result w =
           (if writable w
            then (None, w\<lparr>console := console w @ Extracted (length es) #
                            map entry_line (take 3 es) @ [Saved, UsageReport],
                          output_file := Some (json_dump lib (JArr (map model_dump es)))\<rparr>)
            else (Some OSError, w\<lparr>console := console w @ Extracted (length es) #
                                     map entry_line (take 3 es)\<rparr>))"
  using assms by (simp add: process_def Let_def foldl_print print_def)

lemma main_handlers:
  assumes "success result" and "process lib result w = (raised, w')"
  shows "main lib result w =
           (case raised of
              None \<Rightarrow> w'
            | Some e \<Rightarrow> print (if e = JSONDecodeError then InvalidJSON else Unexpected e) w')"
  using assms by (simp add: main_def split: option.splits exn.splits)

lemma validation_never_decode_error:
  "LeaderboardEntry_init lib item \<noteq> Inl JSONDecodeError"
  by (simp add: LeaderboardEntry_init_def Let_def split: json.splits sum.splits)

lemma init_Inr_iff:
  "LeaderboardEntry_init lib (JObj kvs) = Inr e \<longleftrightarrow>
     validate_field (validate_int lib) kvs ''rank'' = Inr (rank e) \<and>
     validate_field validate_str kvs ''model'' = Inr (model e) \<and>
     validate_field (validate_float lib) kvs ''arena score'' = Inr (arena_score e) \<and>
     validate_field validate_str kvs ''95% CI'' = Inr (ci_95 e) \<and>
     validate_field (validate_int lib) kvs ''votes'' = Inr (votes e) \<and>
     validate_field validate_str kvs ''organization'' = Inr (organization e) \<and>
     validate_field validate_str kvs ''license'' = Inr (license e)"
  by (cases e) (auto simp add: LeaderboardEntry_init_def Let_def split: sum.splits)

lemma init_not_dict:
  "(\<forall>kvs. item \<noteq> JObj kvs) \<Longrightarrow> LeaderboardEntry_init lib item = Inl TypeError"
  by (cases item) (simp_all add: LeaderboardEntry_init_def)

section \<open>The claims\<close>

text \<open>
  C5. When the crawler reports failure, \<open>main\<close> prints one line that carries the
  crawler's \<^verbatim>\<open>error_message\<close> and does nothing else: the extracted text is not parsed
  and no item is validated (the outcome is the same for every library), the file is
  left as it was, and \<open>main\<close> returns instead of raising.
\<close>

theorem extraction_failure_only_reported:
  assumes "\<not> success result"
  shows "main lib result w = w\<lparr>console := console w @ [ScrapeError (error_message result)]\<rparr> \<and>
         output_file (main lib result w) = output_file w \<and>
         main lib' result w = main lib result w"
  using assms by (simp add: main_def print_def)

theorem extraction_failure_only_reported_witness:
  "\<not> success \<lparr>success = False, extracted_content = Some schema_text,
               error_message = Some ''Timeout 30000ms exceeded''\<rparr> \<and>
   main sample_lib
     \<lparr>success = False, extracted_content = Some schema_text,
      error_message = Some ''Timeout 30000ms exceeded''\<rparr> old_world =
   \<lparr>console = [ScrapeError (Some ''Timeout 30000ms exceeded'')],
    output_file = Some ''[]'', writable = True\<rparr>"
  using extraction_failure_only_reported
    [of "\<lparr>success = False, extracted_content = Some schema_text,
          error_message = Some ''Timeout 30000ms exceeded''\<rparr>" sample_lib old_world]
  by (simp add: old_world_def)

text \<open>
  C4. When \<^verbatim>\<open>json.loads\<close> raises \<^verbatim>\<open>JSONDecodeError\<close> on the extracted text, \<open>main\<close>
  prints the invalid-JSON message and nothing else: no item is validated, no summary
  is printed and the file is left as it was.
\<close>

theorem malformed_text_reported:
  assumes "success result"
    and "extracted_content result = Some txt"
    and "json_loads lib txt = Inl JSONDecodeError"
  shows "main lib result w = w\<lparr>console := console w @ [InvalidJSON]\<rparr> \<and>
         output_file (main lib result w) = output_file w"
  using assms by (simp add: main_def process_def print_def)

theorem malformed_text_reported_witness:
  "success (ok_result truncated_text) \<and>
   extracted_content (ok_result truncated_text) = Some truncated_text \<and>
   json_loads sample_lib truncated_text = Inl JSONDecodeError \<and>
   main sample_lib (ok_result truncated_text) old_world =
     \<lparr>console = [InvalidJSON], output_file = Some ''[]'', writable = True\<rparr>"
proof -
  have h1: "success (ok_result truncated_text)"
    and h2: "extracted_content (ok_result truncated_text) = Some truncated_text"
    by (simp_all add: ok_result_def)
  have h3: "json_loads sample_lib truncated_text = Inl JSONDecodeError"
    by (simp add: sample_lib_def sample_loads_def sample_texts)
  from malformed_text_reported[OF h1 h2 h3, of old_world] h1 h2 h3
  show ?thesis by (simp add: old_world_def)
qed

text \<open>
  C1. All-or-nothing validation. When the parsed payload is a list and at least one of
  its items is refused by \<^verbatim>\<open>LeaderboardEntry(**item)\<close>, the list splits at the first
  refused item: the items before it were accepted, the items after it are never looked
  at, and the only effect of the run is one error line carrying the exception of that
  first refused item. The file is not created, and an existing file keeps its content.
\<close>

theorem invalid_record_aborts_batch:
  assumes "success result"
    and "extracted_content result = Some txt"
    and "json_loads lib txt = Inr (JArr items)"
    and "\<exists>r\<in>set items. \<exists>e. LeaderboardEntry_init lib r = Inl e"
  shows "\<exists>good bad rest e.
           items = good @ bad # rest \<and>
           (\<forall>g\<in>set good. \<exists>v. LeaderboardEntry_init lib g = Inr v) \<and>
           LeaderboardEntry_init lib bad = Inl e \<and>
           (\<forall>rest'. validate_all lib (good @ bad # rest') = Inl e) \<and>
           main lib result w = w\<lparr>console := console w @ [Unexpected e]\<rparr> \<and>
           output_file (main lib result w) = output_file w"
proof -
  from first_failure_exists[OF assms(4)] obtain good bad rest e
    where split: "items = good @ bad # rest"
      and good: "\<forall>g\<in>set good. \<exists>v. LeaderboardEntry_init lib g = Inr v"
      and bad: "LeaderboardEntry_init lib bad = Inl e"
    by blast
  have abort: "\<forall>rest'. validate_all lib (good @ bad # rest') = Inl e"
    using validate_all_first_failure[OF good bad] by blast
  then have "validate_all lib items = Inl e"
    using split by blast
  then have "process lib result w = (Some e, w)"
    using process_validation_raises[OF assms(2) assms(3)] by (simp add: py_iter_def)
  moreover have "e \<noteq> JSONDecodeError"
    using bad validation_never_decode_error[of lib bad] by auto
  ultimately have "main lib result w = w\<lparr>console := console w @ [Unexpected e]\<rparr>"
    using main_handlers[OF assms(1), of lib w "Some e" w] by (simp add: print_def)
  with split good bad abort show ?thesis
    by (intro exI[of _ good] exI[of _ bad] exI[of _ rest] exI[of _ e]) simp
qed

lemma sample_records_evaluated:
  "LeaderboardEntry_init sample_lib schema_record = Inr schema_entry"
  "LeaderboardEntry_init sample_lib short_record =
     Inl (ValidationError [(''arena score'', Missing), (''95% CI'', Missing),
            (''votes'', Missing), (''organization'', Missing), (''license'', Missing)])"
  "LeaderboardEntry_init sample_lib mistyped_record =
     Inl (ValidationError [(''model'', StringType)])"
  by (simp_all add: LeaderboardEntry_init_def Let_def validate_field_def field_errors_def
      validate_int_def validate_str_def validate_float_def
      schema_record_def schema_entry_def short_record_def mistyped_record_def)

theorem invalid_record_aborts_batch_witness:
  "success (ok_result batch_text) \<and>
   extracted_content (ok_result batch_text) = Some batch_text \<and>
   json_loads sample_lib batch_text =
     Inr (JArr [schema_record, short_record, mistyped_record]) \<and>
   LeaderboardEntry_init sample_lib short_record =
     Inl (ValidationError [(''arena score'', Missing), (''95% CI'', Missing),
            (''votes'', Missing), (''organization'', Missing), (''license'', Missing)]) \<and>
   (\<exists>good bad rest e.
      [schema_record, short_record, mistyped_record] = good @ bad # rest \<and>
      LeaderboardEntry_init sample_lib bad = Inl e \<and>
      main sample_lib (ok_result batch_text) old_world =
        old_world\<lparr>console := console old_world @ [Unexpected e]\<rparr>) \<and>
   output_file (main sample_lib (ok_result batch_text) old_world) = Some ''[]''"
proof -
  have h1: "success (ok_result batch_text)"
    and h2: "extracted_content (ok_result batch_text) = Some batch_text"
    by (simp_all add: ok_result_def)
  have h3: "json_loads sample_lib batch_text =
      Inr (JArr [schema_record, short_record, mistyped_record])"
    by (simp add: sample_lib_def sample_loads_def sample_texts)
  have h4: "\<exists>r\<in>set [schema_record, short_record, mistyped_record].
      \<exists>e. LeaderboardEntry_init sample_lib r = Inl e"
    by (simp add: sample_records_evaluated)
  from invalid_record_aborts_batch[OF h1 h2 h3 h4, of old_world]
  obtain good bad rest e where
    "[schema_record, short_record, mistyped_record] = good @ bad # rest"
    "LeaderboardEntry_init sample_lib bad = Inl e"
    "main sample_lib (ok_result batch_text) old_world =
       old_world\<lparr>console := console old_world @ [Unexpected e]\<rparr>"
    "output_file (main sample_lib (ok_result batch_text) old_world) = output_file old_world"
    by blast
  with h1 h2 h3 show ?thesis
    by (auto simp add: sample_records_evaluated old_world_def)
qed

subsection \<open>The encoder on a list of dumped entries\<close>

lemma newline_indents:
  "newline_indent 2 0 = ''\<newline>''"
  "newline_indent 2 (Suc 0) = ''\<newline>  ''"
  "newline_indent 2 (Suc (Suc 0)) = ''\<newline>    ''"
  by (simp_all add: newline_indent_def eval_nat_numeral)

lemma encoded_keys:
  "encode_basestring ''rank'' = [CHR 0x22] @ ''rank'' @ [CHR 0x22]"
  "encode_basestring ''model'' = [CHR 0x22] @ ''model'' @ [CHR 0x22]"
  "encode_basestring ''arena score'' = [CHR 0x22] @ ''arena score'' @ [CHR 0x22]"
  "encode_basestring ''95% CI'' = [CHR 0x22] @ ''95% CI'' @ [CHR 0x22]"
  "encode_basestring ''votes'' = [CHR 0x22] @ ''votes'' @ [CHR 0x22]"
  "encode_basestring ''organization'' = [CHR 0x22] @ ''organization'' @ [CHR 0x22]"
  "encode_basestring ''license'' = [CHR 0x22] @ ''license'' @ [CHR 0x22]"
  by (simp_all add: encode_basestring_def escape_char_def)

lemma iterencode_model_dump: "iterencode lib 2 (model_dump e) (Suc 0) = object_text lib e"
  by (simp add: model_dump_def object_text_def newline_indents encoded_keys)

lemma json_dump_entries: "json_dump lib (JArr (map model_dump es)) = array_text lib es"
  by (simp add: json_dump_def array_text_def newline_indents iterencode_model_dump comp_def)




subsection \<open>Dumping and validating again\<close>

lemma model_dump_validates: "LeaderboardEntry_init lib (model_dump e) = Inr e"
  by (simp add: init_Inr_iff model_dump_def validate_field_def
      validate_int_def validate_str_def validate_float_def)

lemma dumped_entries_validate: "validate_all lib (map model_dump es) = Inr es"
  by (induction es) (simp_all add: model_dump_validates)

subsection \<open>A run whose items are all accepted\<close>

lemma main_validated:
  assumes "success result"
    and "extracted_content result = Some txt"
    and "json_loads lib txt = Inr raw_data"
    and "py_iter raw_data = Inr items"
    and "validate_all lib items = Inr es"
  shows "main lib result w =
           (if writable w
            then w\<lparr>console := console w @ Extracted (length es) #
                     map entry_line (take 3 es) @ [Saved, UsageReport],
                   output_file := Some (array_text lib es)\<rparr>
            else w\<lparr>console := console w @ Extracted (length es) #
                     map entry_line (take 3 es) @ [Unexpected OSError]\<rparr>)"
  using main_handlers[OF assms(1), of lib w]
    process_validated[OF assms(2-5), of w]
  by (simp add: json_dump_entries print_def)


lemma sample_loads_evaluated:
  "json_loads sample_lib scenario_text = Inr (JArr [scenario_record])"
  "json_loads sample_lib schema_text = Inr (JArr [schema_record])"
  "json_loads sample_lib batch_text =
     Inr (JArr [schema_record, short_record, mistyped_record])"
  "json_loads sample_lib number_text = Inr (JInt 42)"
  "json_loads sample_lib ranking_text = Inr (JArr ranking_records)"
  "json_loads sample_lib written_text = Inr (JArr [schema_record])"
  "json_loads sample_lib truncated_text = Inl JSONDecodeError"
  by (simp_all add: sample_lib_def sample_loads_def sample_texts)

lemma ok_result_fields:
  "success (ok_result txt)"
  "extracted_content (ok_result txt) = Some txt"
  by (simp_all add: ok_result_def)





text \<open>
  C7. Round trip. Dumping entries with their aliases and building entries from the
  dumped dicts gives the same entries back, so dumping those again gives the same
  dicts and the same text. At the level of the file: if \<^verbatim>\<open>json.loads\<close> reads the
  written text back as the dumped list, a run on that text writes the same text again.
\<close>

theorem dump_then_validate_is_identity:
  "validate_all lib (map model_dump es) = Inr es \<and>
   (\<forall>es'. validate_all lib (map model_dump es) = Inr es' \<longrightarrow>
      es' = es \<and> map model_dump es' = map model_dump es \<and>
      json_dump lib (JArr (map model_dump es')) = json_dump lib (JArr (map model_dump es))) \<and>
   (success result \<and>
    extracted_content result = Some (json_dump lib (JArr (map model_dump es))) \<and>
    json_loads lib (json_dump lib (JArr (map model_dump es))) = Inr (JArr (map model_dump es)) \<and>
    writable w \<longrightarrow>
      output_file (main lib result w) = Some (json_dump lib (JArr (map model_dump es))))"
proof (intro conjI allI impI)
  show again: "validate_all lib (map model_dump es) = Inr es"
    by (rule dumped_entries_validate)
  fix es'
  assume "validate_all lib (map model_dump es) = Inr es'"
  with again show same: "es' = es" by simp
  then show "map model_dump es' = map model_dump es"
    and "json_dump lib (JArr (map model_dump es')) = json_dump lib (JArr (map model_dump es))"
    by (rule arg_cong)+
next
  assume run: "success result \<and>
    extracted_content result = Some (json_dump lib (JArr (map model_dump es))) \<and>
    json_loads lib (json_dump lib (JArr (map model_dump es))) = Inr (JArr (map model_dump es)) \<and>
    writable w"
  have iter: "py_iter (JArr (map model_dump es)) = Inr (map model_dump es)"
    by (simp add: py_iter_def)
  have "main lib result w =
          w\<lparr>console := console w @ Extracted (length es) #
               map entry_line (take 3 es) @ [Saved, UsageReport],
            output_file := Some (array_text lib es)\<rparr>"
    using main_validated[of result _ lib _ _ es w] run iter dumped_entries_validate[of lib es]
    by metis
  then show "output_file (main lib result w) = Some (json_dump lib (JArr (map model_dump es)))"
    by (simp add: json_dump_entries)
qed

lemma sample_written_text:
  "json_dump sample_lib (JArr (map model_dump [schema_entry])) = written_text"
  by code_simp

lemma sample_schema_dump: "model_dump schema_entry = schema_record"
  by (simp add: model_dump_def schema_entry_def schema_record_def)

theorem dump_then_validate_is_identity_witness:
  "model_dump schema_entry = schema_record \<and>
   validate_all sample_lib [schema_record] = Inr [schema_entry] \<and>
   success (ok_result written_text) \<and>
   extracted_content (ok_result written_text) = Some written_text \<and>
   json_dump sample_lib (JArr [schema_record]) = written_text \<and>
   json_loads sample_lib written_text = Inr (JArr [schema_record]) \<and>
   writable fresh_world \<and>
   output_file (main sample_lib (ok_result written_text) fresh_world) = Some written_text"
proof -
  have h4: "writable fresh_world"
    by (simp add: fresh_world_def)
  have dumped: "json_dump sample_lib (JArr (map model_dump [schema_entry])) = written_text"
    by (rule sample_written_text)
  have loaded: "json_loads sample_lib written_text = Inr (JArr (map model_dump [schema_entry]))"
    using sample_loads_evaluated(6) by (simp add: sample_schema_dump)
  note rt = dump_then_validate_is_identity
    [of sample_lib "[schema_entry]" "ok_result written_text" fresh_world, unfolded dumped]
  from rt have a: "validate_all sample_lib (map model_dump [schema_entry]) = Inr [schema_entry]"
    by (rule conjunct1)
  from rt have "success (ok_result written_text) \<and>
      extracted_content (ok_result written_text) = Some written_text \<and>
      json_loads sample_lib written_text = Inr (JArr (map model_dump [schema_entry])) \<and>
      writable fresh_world \<longrightarrow>
      output_file (main sample_lib (ok_result written_text) fresh_world) = Some written_text"
    by (rule conjunct2[THEN conjunct2])
  with ok_result_fields[of written_text] loaded h4
  have b: "output_file (main sample_lib (ok_result written_text) fresh_world) = Some written_text"
    by blast
  from dumped have c: "json_dump sample_lib (JArr [schema_record]) = written_text"
    by (simp add: sample_schema_dump)
  from a have a': "validate_all sample_lib [schema_record] = Inr [schema_entry]"
    by (simp add: sample_schema_dump)
  show ?thesis
    using sample_schema_dump a' ok_result_fields[of written_text] c
      sample_loads_evaluated(6) h4 b
    by blast
qed

text \<open>
  C9. Only the seven keys of the schema are read. When each of them is present with a
  value that its field accepts, the entry is built from those seven values whatever
  other keys the record has; the dumped dict has exactly the seven keys, in the order
  of the class body, and so has the object written for it; and two records that agree
  on the seven keys are treated alike.
\<close>

theorem unknown_keys_dropped:
  assumes "map_of kvs ''rank'' = Some a1" and "validate_int lib a1 = Inr v1"
    and "map_of kvs ''model'' = Some a2" and "validate_str a2 = Inr v2"
    and "map_of kvs ''arena score'' = Some a3" and "validate_float lib a3 = Inr v3"
    and "map_of kvs ''95% CI'' = Some a4" and "validate_str a4 = Inr v4"
    and "map_of kvs ''votes'' = Some a5" and "validate_int lib a5 = Inr v5"
    and "map_of kvs ''organization'' = Some a6" and "validate_str a6 = Inr v6"
    and "map_of kvs ''license'' = Some a7" and "validate_str a7 = Inr v7"
    and "e = \<lparr>rank = v1, model = v2, arena_score = v3, ci_95 = v4, votes = v5,
               organization = v6, license = v7\<rparr>"
  shows "LeaderboardEntry_init lib (JObj kvs) = Inr e \<and>
         model_dump e =
           JObj [(''rank'', JInt v1), (''model'', JStr v2), (''arena score'', JFloat v3),
                 (''95% CI'', JStr v4), (''votes'', JInt v5), (''organization'', JStr v6),
                 (''license'', JStr v7)] \<and>
         (\<exists>dct. model_dump e = JObj dct \<and> map fst dct = schema_keys) \<and>
         iterencode lib 2 (model_dump e) 1 = object_text lib e \<and>
         (\<forall>kvs'. (\<forall>k\<in>set schema_keys. map_of kvs' k = map_of kvs k) \<longrightarrow>
            LeaderboardEntry_init lib (JObj kvs') = Inr e)"
proof (intro conjI allI impI)
  have built: "LeaderboardEntry_init lib (JObj kvs') = Inr e"
    if "\<forall>k\<in>set schema_keys. map_of kvs' k = map_of kvs k" for kvs'
  proof -
    from that have "map_of kvs' ''rank'' = Some a1" "map_of kvs' ''model'' = Some a2"
      "map_of kvs' ''arena score'' = Some a3" "map_of kvs' ''95% CI'' = Some a4"
      "map_of kvs' ''votes'' = Some a5" "map_of kvs' ''organization'' = Some a6"
      "map_of kvs' ''license'' = Some a7"
      using assms(1,3,5,7,9,11,13) by (simp_all add: schema_keys_def)
    then show ?thesis
      using assms(2,4,6,8,10,12,14,15) by (simp add: init_Inr_iff validate_field_def)
  qed
  show "LeaderboardEntry_init lib (JObj kvs) = Inr e"
    by (rule built) simp
  show "model_dump e =
           JObj [(''rank'', JInt v1), (''model'', JStr v2), (''arena score'', JFloat v3),
                 (''95% CI'', JStr v4), (''votes'', JInt v5), (''organization'', JStr v6),
                 (''license'', JStr v7)]"
    using assms(15) by (simp add: model_dump_def)
  show "\<exists>dct. model_dump e = JObj dct \<and> map fst dct = schema_keys"
    by (simp add: model_dump_def schema_keys_def)
  show "iterencode lib 2 (model_dump e) 1 = object_text lib e"
    using iterencode_model_dump[of lib e] by simp
  fix kvs'
  assume "\<forall>k\<in>set schema_keys. map_of kvs' k = map_of kvs k"
  then show "LeaderboardEntry_init lib (JObj kvs') = Inr e"
    by (rule built)
qed

theorem unknown_keys_dropped_witness:
  "map_of [(''url'', JStr ''https://example.org/x''), (''rank'', JInt 1),
           (''model'', JStr ''X''), (''arena score'', JFloat (Finite 1300.5)),
           (''95% CI'', JStr ''+2/-2''), (''votes'', JInt 500),
           (''organization'', JStr ''Acme''), (''license'', JStr ''MIT''),
           (''Knowledge Cutoff'', JNull)] ''rank'' = Some (JInt 1) \<and>
   validate_int sample_lib (JInt 1) = Inr 1 \<and>
   validate_float sample_lib (JFloat (Finite 1300.5)) = Inr (Finite 1300.5) \<and>
   validate_str (JStr ''MIT'') = Inr ''MIT'' \<and>
   LeaderboardEntry_init sample_lib extras_record = Inr schema_entry \<and>
   model_dump schema_entry = schema_record"
proof -
  let ?kvs = "[(''url'', JStr ''https://example.org/x''), (''rank'', JInt 1),
           (''model'', JStr ''X''), (''arena score'', JFloat (Finite 1300.5)),
           (''95% CI'', JStr ''+2/-2''), (''votes'', JInt 500),
           (''organization'', JStr ''Acme''), (''license'', JStr ''MIT''),
           (''Knowledge Cutoff'', JNull)]"
  have k: "map_of ?kvs ''rank'' = Some (JInt 1)"
    "map_of ?kvs ''model'' = Some (JStr ''X'')"
    "map_of ?kvs ''arena score'' = Some (JFloat (Finite 1300.5))"
    "map_of ?kvs ''95% CI'' = Some (JStr ''+2/-2'')"
    "map_of ?kvs ''votes'' = Some (JInt 500)"
    "map_of ?kvs ''organization'' = Some (JStr ''Acme'')"
    "map_of ?kvs ''license'' = Some (JStr ''MIT'')"
    by simp_all
  have v: "validate_int sample_lib (JInt 1) = Inr 1"
    "validate_str (JStr ''X'') = Inr ''X''"
    "validate_float sample_lib (JFloat (Finite 1300.5)) = Inr (Finite 1300.5)"
    "validate_str (JStr ''+2/-2'') = Inr ''+2/-2''"
    "validate_int sample_lib (JInt 500) = Inr 500"
    "validate_str (JStr ''Acme'') = Inr ''Acme''"
    "validate_str (JStr ''MIT'') = Inr ''MIT''"
    by (simp_all add: validate_int_def validate_str_def validate_float_def)
  from unknown_keys_dropped[OF k(1) v(1) k(2) v(2) k(3) v(3) k(4) v(4) k(5) v(5)
      k(6) v(6) k(7) v(7), of schema_entry]
  have "LeaderboardEntry_init sample_lib (JObj ?kvs) = Inr schema_entry"
    by (simp add: schema_entry_def)
  then have "LeaderboardEntry_init sample_lib extras_record = Inr schema_entry"
    by (simp add: extras_record_def)
  with k(1) v(1) v(3) v(7) sample_schema_dump show ?thesis
    by blast
qed

subsection \<open>Digit strings and small integers\<close>

lemma dec_value_snoc: "dec_value (s @ [c]) = 10 * dec_value s + digit_val c"
  by (simp add: dec_value_def)

lemma digit_char:
  assumes "d < 10"
  shows "is_digit (char_of (48 + d))" and "digit_val (char_of (48 + d)) = d"
  using assms by (simp_all add: is_digit_def digit_val_def)

lemma digits_of_nonempty: "digits_of n \<noteq> []"
  by (subst digits_of.simps) simp

lemma digits_of_digits: "list_all is_digit (digits_of n)"
proof (induction n rule: digits_of.induct)
  case (1 n)
  show ?case
  proof (cases "n < 10")
    case True
    then show ?thesis
      by (subst digits_of.simps) (simp add: digit_char)
  next
    case False
    with "1" have "list_all is_digit (digits_of (n div 10))" by simp
    moreover have "is_digit (char_of (48 + n mod 10))"
      by (rule digit_char) simp
    ultimately show ?thesis
      using False by (subst digits_of.simps) simp
  qed
qed

lemma dec_value_digits_of: "dec_value (digits_of n) = n"
proof (induction n rule: digits_of.induct)
  case (1 n)
  show ?case
  proof (cases "n < 10")
    case True
    then show ?thesis
      by (subst digits_of.simps) (simp add: dec_value_def digit_char)
  next
    case False
    with "1" have "dec_value (digits_of (n div 10)) = n div 10" by simp
    moreover have "digit_val (char_of (48 + n mod 10)) = n mod 10"
      by (rule digit_char) simp
    ultimately show ?thesis
      using False by (subst digits_of.simps) (simp add: dec_value_snoc)
  qed
qed

lemma digit_string_accepted:
  assumes "ds \<noteq> [] \<and> list_all is_digit ds \<and> length ds \<le> 4300"
  shows "validate_int lib (JStr ds) = Inr (int (dec_value ds))"
  using assms by (simp add: validate_int_def str_as_int_def)

lemma bit_length_bound: "n < 2 ^ k \<Longrightarrow> bit_length n \<le> k"
proof (induction k arbitrary: n)
  case 0
  then show ?case by (subst bit_length.simps) simp
next
  case (Suc k)
  from Suc.prems have "n div 2 < 2 ^ k" by simp
  then have "bit_length (n div 2) \<le> k" by (rule Suc.IH)
  then show ?case by (subst bit_length.simps) simp
qed

lemma float_of_int_exact:
  assumes "\<bar>i\<bar> < 2 ^ 53"
  shows "float_of_int i = Some (Finite (of_int i))"
proof -
  from assms have "nat \<bar>i\<bar> < 2 ^ 53"
    by (simp add: nat_less_iff)
  then have "bit_length (nat \<bar>i\<bar>) \<le> 53"
    by (rule bit_length_bound)
  then show ?thesis
    by (simp add: float_of_int_def Let_def)
qed

lemma small_int_accepted:
  "\<bar>i\<bar> < 2 ^ 53 \<Longrightarrow> validate_float lib (JInt i) = Inr (Finite (of_int i))"
  by (simp add: validate_float_def float_of_int_exact)

text \<open>
  C10. Convertible values are coerced. A non-empty run of at most 4300 decimal digits
  offered for \<^verbatim>\<open>rank\<close> or \<^verbatim>\<open>votes\<close> is accepted as the number it spells (the decimal
  spelling of \<open>n\<close> gives \<open>n\<close>), and an int below \<open>2^53\<close> in absolute value offered for
  the score is accepted as the float of the same value; a record with such values and
  strings for its four text fields is built into the entry with the coerced values.
  Conversely a value refused for an \<^verbatim>\<open>int\<close> field is neither an int nor such a digit
  string, and a value refused for the \<^verbatim>\<open>float\<close> field is neither a float nor such an
  int.
\<close>

theorem convertible_values_coerced:
  assumes "ds1 \<noteq> [] \<and> list_all is_digit ds1 \<and> length ds1 \<le> 4300"
    and "ds2 \<noteq> [] \<and> list_all is_digit ds2 \<and> length ds2 \<le> 4300"
    and "\<bar>i\<bar> < 2 ^ 53"
    and "map_of kvs ''rank'' = Some (JStr ds1)"
    and "map_of kvs ''model'' = Some (JStr m)"
    and "map_of kvs ''arena score'' = Some (JInt i)"
    and "map_of kvs ''95% CI'' = Some (JStr ci)"
    and "map_of kvs ''votes'' = Some (JStr ds2)"
    and "map_of kvs ''organization'' = Some (JStr org)"
    and "map_of kvs ''license'' = Some (JStr lic)"
  shows "validate_int lib (JStr ds1) = Inr (int (dec_value ds1)) \<and>
         validate_int lib (JStr ds2) = Inr (int (dec_value ds2)) \<and>
         validate_float lib (JInt i) = Inr (Finite (of_int i)) \<and>
         LeaderboardEntry_init lib (JObj kvs) =
           Inr \<lparr>rank = int (dec_value ds1), model = m, arena_score = Finite (of_int i),
                ci_95 = ci, votes = int (dec_value ds2), organization = org,
                license = lic\<rparr> \<and>
         (\<forall>n. length (digits_of n) \<le> 4300 \<longrightarrow>
              validate_int lib (JStr (digits_of n)) = Inr (int n)) \<and>
         (\<forall>v err. validate_int lib v = Inl err \<longrightarrow>
              (\<forall>j. v \<noteq> JInt j) \<and>
              (\<forall>ds. ds \<noteq> [] \<and> list_all is_digit ds \<and> length ds \<le> 4300 \<longrightarrow> v \<noteq> JStr ds)) \<and>
         (\<forall>v err. validate_float lib v = Inl err \<longrightarrow>
              (\<forall>x. v \<noteq> JFloat x) \<and> (\<forall>j. \<bar>j\<bar> < 2 ^ 53 \<longrightarrow> v \<noteq> JInt j))"
proof (intro conjI allI impI)
  show r: "validate_int lib (JStr ds1) = Inr (int (dec_value ds1))"
    using assms(1) by (rule digit_string_accepted)
  show v: "validate_int lib (JStr ds2) = Inr (int (dec_value ds2))"
    using assms(2) by (rule digit_string_accepted)
  show s: "validate_float lib (JInt i) = Inr (Finite (of_int i))"
    using assms(3) by (rule small_int_accepted)
  show "LeaderboardEntry_init lib (JObj kvs) =
           Inr \<lparr>rank = int (dec_value ds1), model = m, arena_score = Finite (of_int i),
                ci_95 = ci, votes = int (dec_value ds2), organization = org,
                license = lic\<rparr>"
    using r v s assms(4-10)
    by (simp add: init_Inr_iff validate_field_def validate_str_def)
next
  fix n
  assume "length (digits_of n) \<le> 4300"
  then have "digits_of n \<noteq> [] \<and> list_all is_digit (digits_of n) \<and>
      length (digits_of n) \<le> 4300"
    by (simp add: digits_of_nonempty digits_of_digits)
  then have "validate_int lib (JStr (digits_of n)) = Inr (int (dec_value (digits_of n)))"
    by (rule digit_string_accepted)
  then show "validate_int lib (JStr (digits_of n)) = Inr (int n)"
    by (simp add: dec_value_digits_of)
next
  fix v err j
  assume "validate_int lib v = Inl err"
  then show "v \<noteq> JInt j"
    by (auto simp add: validate_int_def)
next
  fix v err ds
  assume "validate_int lib v = Inl err"
    and "ds \<noteq> [] \<and> list_all is_digit ds \<and> length ds \<le> 4300"
  then show "v \<noteq> JStr ds"
    using digit_string_accepted[of ds lib] by auto
next
  fix v err x
  assume "validate_float lib v = Inl err"
  then show "v \<noteq> JFloat x"
    by (auto simp add: validate_float_def)
next
  fix v err j
  assume "validate_float lib v = Inl err" and "\<bar>j::int\<bar> < 2 ^ 53"
  then show "v \<noteq> JInt j"
    using small_int_accepted[of j lib] by auto
qed

theorem convertible_values_coerced_witness:
  "''1'' \<noteq> [] \<and> list_all is_digit ''1'' \<and> length ''1'' \<le> 4300 \<and>
   ''500'' \<noteq> [] \<and> list_all is_digit ''500'' \<and> length ''500'' \<le> 4300 \<and>
   \<bar>1300::int\<bar> < 2 ^ 53 \<and>
   validate_int sample_lib (JStr ''1'') = Inr 1 \<and>
   validate_int sample_lib (JStr ''500'') = Inr 500 \<and>
   validate_float sample_lib (JInt 1300) = Inr (Finite 1300) \<and>
   LeaderboardEntry_init sample_lib coerced_record =
     Inr \<lparr>rank = 1, model = ''X'', arena_score = Finite 1300, ci_95 = ''+2/-2'',
          votes = 500, organization = ''Acme'', license = ''MIT''\<rparr>"
proof -
  let ?kvs = "[(''rank'', JStr ''1''), (''model'', JStr ''X''),
           (''arena score'', JInt 1300), (''95% CI'', JStr ''+2/-2''),
           (''votes'', JStr ''500''), (''organization'', JStr ''Acme''),
           (''license'', JStr ''MIT'')]"
  have d1: "''1'' \<noteq> [] \<and> list_all is_digit ''1'' \<and> length ''1'' \<le> 4300"
    and d2: "''500'' \<noteq> [] \<and> list_all is_digit ''500'' \<and> length ''500'' \<le> 4300"
    by (simp_all add: is_digit_def)
  have small: "\<bar>1300::int\<bar> < 2 ^ 53" by simp
  have vals: "dec_value ''1'' = 1" "dec_value ''500'' = 500"
    by (simp_all add: dec_value_def digit_val_def)
  have k: "map_of ?kvs ''rank'' = Some (JStr ''1'')"
    "map_of ?kvs ''model'' = Some (JStr ''X'')"
    "map_of ?kvs ''arena score'' = Some (JInt 1300)"
    "map_of ?kvs ''95% CI'' = Some (JStr ''+2/-2'')"
    "map_of ?kvs ''votes'' = Some (JStr ''500'')"
    "map_of ?kvs ''organization'' = Some (JStr ''Acme'')"
    "map_of ?kvs ''license'' = Some (JStr ''MIT'')"
    by simp_all
  note c = convertible_values_coerced[OF d1 d2 small k, of sample_lib, unfolded vals]
  from c have "validate_int sample_lib (JStr ''1'') = Inr 1"
    and "validate_int sample_lib (JStr ''500'') = Inr 500"
    and "validate_float sample_lib (JInt 1300) = Inr (Finite 1300)"
    and "LeaderboardEntry_init sample_lib (JObj ?kvs) =
     Inr \<lparr>rank = 1, model = ''X'', arena_score = Finite 1300, ci_95 = ''+2/-2'',
          votes = 500, organization = ''Acme'', license = ''MIT''\<rparr>"
    by simp_all
  with d1 d2 small show ?thesis
    by (simp add: coerced_record_def)
qed

subsection \<open>The scenario payload\<close>

lemma sample_scenario_refused:
  "LeaderboardEntry_init sample_lib scenario_record =
     Inl (ValidationError [(''rank'', Missing), (''model'', Missing), (''license'', Missing)])"
  by (simp add: LeaderboardEntry_init_def Let_def validate_field_def field_errors_def
      validate_int_def validate_str_def validate_float_def scenario_record_def)

lemma schema_record_accepted: "LeaderboardEntry_init lib schema_record = Inr schema_entry"
  by (simp add: init_Inr_iff validate_field_def validate_int_def validate_str_def
      validate_float_def schema_record_def schema_entry_def)

lemma schema_entry_rendered:
  \<open>array_text lib [schema_entry] =
     ''[\<newline>  {\<newline>    "rank": 1,\<newline>    "model": "X",\<newline>    "arena score": '' @
     float_repr lib 1300.5 @
     '',\<newline>    "95% CI": "+2/-2",\<newline>    "votes": 500,\<newline>    "organization": "Acme",'' @
     ''\<newline>    "license": "MIT"\<newline>  }\<newline>]''\<close>
proof -
  have ints: "intstr 1 = ''1''" "intstr 500 = ''500''"
    by code_simp+
  have strs: \<open>encode_basestring ''X'' = ''"X"''\<close> \<open>encode_basestring ''+2/-2'' = ''"+2/-2"''\<close>
    \<open>encode_basestring ''Acme'' = ''"Acme"''\<close> \<open>encode_basestring ''MIT'' = ''"MIT"''\<close>
    by code_simp+
  show ?thesis
    by (simp add: array_text_def object_text_def schema_entry_def floatstr_def ints strs)
qed

text \<open>
  C2, as the code has it. The scenario payload with its keys spelled as the schema
  spells them (\<^verbatim>\<open>rank\<close>, \<^verbatim>\<open>model\<close> and \<^verbatim>\<open>license\<close> in lower case) is accepted, and when the
  file can be opened it holds exactly one object with rank 1, model X, arena score
  1300.5 (as \<^verbatim>\<open>float.__repr__\<close> prints it), 95% CI +2/-2, votes 500, organization Acme
  and license MIT.
\<close>

theorem schema_spelled_scenario_written:
  assumes "success result"
    and "extracted_content result = Some txt"
    and "json_loads lib txt = Inr (JArr [schema_record])"
    and "writable w"
  shows \<open>LeaderboardEntry_init lib schema_record =
           Inr \<lparr>rank = 1, model = ''X'', arena_score = Finite 1300.5, ci_95 = ''+2/-2'',
                votes = 500, organization = ''Acme'', license = ''MIT''\<rparr> \<and>
         validate_all lib [schema_record] = Inr [schema_entry] \<and>
         output_file (main lib result w) =
           Some (''[\<newline>  {\<newline>    "rank": 1,\<newline>    "model": "X",\<newline>    "arena score": '' @
                 float_repr lib 1300.5 @
                 '',\<newline>    "95% CI": "+2/-2",\<newline>    "votes": 500,\<newline>    "organization": "Acme",'' @
                 ''\<newline>    "license": "MIT"\<newline>  }\<newline>]'')\<close>
proof -
  have valid: "validate_all lib [schema_record] = Inr [schema_entry]"
    by (simp add: schema_record_accepted)
  have iter: "py_iter (JArr [schema_record]) = Inr [schema_record]"
    by (simp add: py_iter_def)
  from main_validated[OF assms(1-3) iter valid, of w] assms(4)
  have "output_file (main lib result w) = Some (array_text lib [schema_entry])"
    by simp
  then have written: \<open>output_file (main lib result w) =
           Some (''[\<newline>  {\<newline>    "rank": 1,\<newline>    "model": "X",\<newline>    "arena score": '' @
                 float_repr lib 1300.5 @
                 '',\<newline>    "95% CI": "+2/-2",\<newline>    "votes": 500,\<newline>    "organization": "Acme",'' @
                 ''\<newline>    "license": "MIT"\<newline>  }\<newline>]'')\<close>
    by (simp only: schema_entry_rendered)
  have "LeaderboardEntry_init lib schema_record =
           Inr \<lparr>rank = 1, model = ''X'', arena_score = Finite 1300.5, ci_95 = ''+2/-2'',
                votes = 500, organization = ''Acme'', license = ''MIT''\<rparr>"
    using schema_record_accepted[of lib] by (simp add: schema_entry_def)
  with valid written show ?thesis
    by blast
qed

theorem schema_spelled_scenario_written_witness:
  "success (ok_result schema_text) \<and>
   extracted_content (ok_result schema_text) = Some schema_text \<and>
   json_loads sample_lib schema_text = Inr (JArr [schema_record]) \<and>
   writable fresh_world \<and>
   float_repr sample_lib 1300.5 = ''1300.5'' \<and>
   output_file (main sample_lib (ok_result schema_text) fresh_world) = Some written_text"
proof -
  have h4: "writable fresh_world"
    by (simp add: fresh_world_def)
  have half: "float_repr sample_lib (2601 / 2) = ''1300.5''"
    by code_simp
  then have fr: "float_repr sample_lib 1300.5 = ''1300.5''"
    by simp
  note run = schema_spelled_scenario_written[OF ok_result_fields sample_loads_evaluated(2) h4]
  from run have \<open>output_file (main sample_lib (ok_result schema_text) fresh_world) =
           Some (''[\<newline>  {\<newline>    "rank": 1,\<newline>    "model": "X",\<newline>    "arena score": '' @
                 float_repr sample_lib 1300.5 @
                 '',\<newline>    "95% CI": "+2/-2",\<newline>    "votes": 500,\<newline>    "organization": "Acme",'' @
                 ''\<newline>    "license": "MIT"\<newline>  }\<newline>]'')\<close>
    by (rule conjunct2[THEN conjunct2])
  then have "output_file (main sample_lib (ok_result schema_text) fresh_world) = Some written_text"
    by (simp add: half written_text_def)
  with ok_result_fields[of schema_text] sample_loads_evaluated(2) h4 fr show ?thesis
    by blast
qed

text \<open>
  C2, as the claim states it, fails: the keys \<^verbatim>\<open>Rank\<close>, \<^verbatim>\<open>Model\<close> and \<^verbatim>\<open>License\<close> of
  the scenario payload are not the keys \<^verbatim>\<open>rank\<close>, \<^verbatim>\<open>model\<close> and \<^verbatim>\<open>license\<close> that the
  schema reads, so the three fields are reported missing, the run ends with the
  unexpected-error line and no file is created.
\<close>

theorem scenario_payload_refused:
  "json_loads sample_lib scenario_text = Inr (JArr [scenario_record]) \<and>
   LeaderboardEntry_init sample_lib scenario_record =
     Inl (ValidationError [(''rank'', Missing), (''model'', Missing), (''license'', Missing)]) \<and>
   main sample_lib (ok_result scenario_text) fresh_world =
     \<lparr>console = [Unexpected (ValidationError
         [(''rank'', Missing), (''model'', Missing), (''license'', Missing)])],
      output_file = None, writable = True\<rparr>"
proof -
  have iter: "py_iter (JArr [scenario_record]) = Inr [scenario_record]"
    by (simp add: py_iter_def)
  have "validate_all sample_lib [scenario_record] =
      Inl (ValidationError [(''rank'', Missing), (''model'', Missing), (''license'', Missing)])"
    by (simp add: sample_scenario_refused)
  then have raised: "process sample_lib (ok_result scenario_text) fresh_world =
      (Some (ValidationError [(''rank'', Missing), (''model'', Missing), (''license'', Missing)]),
       fresh_world)"
    by (rule process_validation_raises[OF ok_result_fields(2) sample_loads_evaluated(1) iter])
  have "main sample_lib (ok_result scenario_text) fresh_world =
     \<lparr>console = [Unexpected (ValidationError
         [(''rank'', Missing), (''model'', Missing), (''license'', Missing)])],
      output_file = None, writable = True\<rparr>"
    using main_handlers[OF ok_result_fields(1) raised]
    by (simp add: print_def fresh_world_def)
  with sample_loads_evaluated(1) sample_scenario_refused show ?thesis
    by blast
qed

subsection \<open>Which clause reports which failure\<close>

lemma validate_all_never_decode_error: "validate_all lib items \<noteq> Inl JSONDecodeError"
proof (induction items)
  case Nil
  show ?case by simp
next
  case (Cons item items)
  then show ?case
    using validation_never_decode_error[of lib item]
    by (auto split: sum.splits)
qed

lemma py_iter_error: "py_iter raw_data = Inl e \<Longrightarrow> e = TypeError"
  by (cases raw_data) (simp_all add: py_iter_def)

lemma main_loads_raises:
  assumes "success result"
    and "extracted_content result = Some txt"
    and "json_loads lib txt = Inl e"
  shows "main lib result w = print (if e = JSONDecodeError then InvalidJSON else Unexpected e) w"
proof -
  from assms(2,3) have "process lib result w = (Some e, w)"
    by (simp add: process_def)
  from main_handlers[OF assms(1) this] show ?thesis by simp
qed

lemma main_not_iterable:
  assumes "success result"
    and "extracted_content result = Some txt"
    and "json_loads lib txt = Inr raw_data"
    and "py_iter raw_data = Inl e"
  shows "main lib result w = print (Unexpected TypeError) w"
proof -
  from assms(4) have e: "e = TypeError" by (rule py_iter_error)
  from assms(2-4) have "process lib result w = (Some e, w)"
    by (simp add: process_def)
  from main_handlers[OF assms(1) this] e show ?thesis by simp
qed

lemma main_validation_raises:
  assumes "success result"
    and "extracted_content result = Some txt"
    and "json_loads lib txt = Inr raw_data"
    and "py_iter raw_data = Inr items"
    and "validate_all lib items = Inl e"
  shows "main lib result w = print (Unexpected e) w"
proof -
  from assms(5) have "e \<noteq> JSONDecodeError"
    using validate_all_never_decode_error[of lib items] by auto
  with main_handlers[OF assms(1) process_validation_raises[OF assms(2-5)], of w]
  show ?thesis by simp
qed

text \<open>
  C3, as the code has it. \<open>main\<close> has three error lines and no more. A failed
  extraction prints the crawler's message. Inside the \<^verbatim>\<open>try\<close> block,
  \<^verbatim>\<open>JSONDecodeError\<close> prints the invalid-JSON line, and every other exception prints the
  same unexpected-error line with the exception as its cause: a refused record (the
  exception of the first refused item), a parsed payload that cannot be iterated, an
  item that is not a dict, a file that cannot be opened, and any other error of
  \<^verbatim>\<open>json.loads\<close>. A refused record has no line of its own.
\<close>

theorem failures_reported_by_three_lines:
  "(\<not> success result \<longrightarrow>
      main lib result w = print (ScrapeError (error_message result)) w) \<and>
   (success result \<and> process lib result w = (Some e, w') \<longrightarrow>
      main lib result w =
        print (if e = JSONDecodeError then InvalidJSON else Unexpected e) w') \<and>
   (success result \<and> extracted_content result = Some txt \<and> json_loads lib txt = Inl e \<longrightarrow>
      main lib result w =
        print (if e = JSONDecodeError then InvalidJSON else Unexpected e) w) \<and>
   (success result \<and> extracted_content result = Some txt \<and>
    json_loads lib txt = Inr raw_data \<and> py_iter raw_data = Inl e \<longrightarrow>
      main lib result w = print (Unexpected TypeError) w) \<and>
   (success result \<and> extracted_content result = Some txt \<and>
    json_loads lib txt = Inr raw_data \<and> py_iter raw_data = Inr items \<and>
    validate_all lib items = Inl e \<longrightarrow>
      main lib result w = print (Unexpected e) w \<and>
      unexpected_report (last (console (main lib result w)))) \<and>
   (success result \<and> extracted_content result = Some txt \<and>
    json_loads lib txt = Inr raw_data \<and> py_iter raw_data = Inr items \<and>
    validate_all lib items = Inr es \<and> \<not> writable w \<longrightarrow>
      unexpected_report (last (console (main lib result w))) \<and>
      last (console (main lib result w)) = Unexpected OSError)"
proof (intro conjI impI)
  assume "\<not> success result"
  then show "main lib result w = print (ScrapeError (error_message result)) w"
    by (simp add: main_def)
next
  assume "success result \<and> process lib result w = (Some e, w')"
  then show "main lib result w =
      print (if e = JSONDecodeError then InvalidJSON else Unexpected e) w'"
    using main_handlers[of result lib w "Some e" w'] by simp
next
  assume "success result \<and> extracted_content result = Some txt \<and> json_loads lib txt = Inl e"
  then show "main lib result w =
      print (if e = JSONDecodeError then InvalidJSON else Unexpected e) w"
    using main_loads_raises[of result "txt" lib e w] by blast
next
  assume "success result \<and> extracted_content result = Some txt \<and>
    json_loads lib txt = Inr raw_data \<and> py_iter raw_data = Inl e"
  then show "main lib result w = print (Unexpected TypeError) w"
    using main_not_iterable[of result "txt" lib raw_data e w] by blast
next
  assume a: "success result \<and> extracted_content result = Some txt \<and>
    json_loads lib txt = Inr raw_data \<and> py_iter raw_data = Inr items \<and>
    validate_all lib items = Inl e"
  then show m: "main lib result w = print (Unexpected e) w"
    using main_validation_raises[of result "txt" lib raw_data items e w] by blast
  then show "unexpected_report (last (console (main lib result w)))"
    by (simp add: print_def unexpected_report_def)
next
  assume a: "success result \<and> extracted_content result = Some txt \<and>
    json_loads lib txt = Inr raw_data \<and> py_iter raw_data = Inr items \<and>
    validate_all lib items = Inr es \<and> \<not> writable w"
  then have "main lib result w =
      w\<lparr>console := console w @ Extracted (length es) #
           map entry_line (take 3 es) @ [Unexpected OSError]\<rparr>"
    using main_validated[of result "txt" lib raw_data items es w] by simp
  then have "console (main lib result w) =
      (console w @ Extracted (length es) # map entry_line (take 3 es)) @ [Unexpected OSError]"
    by simp
  then show l: "last (console (main lib result w)) = Unexpected OSError"
    by (simp only: last_snoc)
  then show "unexpected_report (last (console (main lib result w)))"
    by (simp add: unexpected_report_def)
qed

theorem failures_reported_by_three_lines_witness:
  "main sample_lib
     \<lparr>success = False, extracted_content = None, error_message = Some ''net::ERR_TIMED_OUT''\<rparr>
     fresh_world =
     print (ScrapeError (Some ''net::ERR_TIMED_OUT'')) fresh_world \<and>
   json_loads sample_lib truncated_text = Inl JSONDecodeError \<and>
   main sample_lib (ok_result truncated_text) fresh_world = print InvalidJSON fresh_world \<and>
   json_loads sample_lib number_text = Inr (JInt 42) \<and>
   py_iter (JInt 42) = Inl TypeError \<and>
   main sample_lib (ok_result number_text) fresh_world =
     print (Unexpected TypeError) fresh_world \<and>
   validate_all sample_lib [schema_record, short_record, mistyped_record] =
     Inl (ValidationError [(''arena score'', Missing), (''95% CI'', Missing),
            (''votes'', Missing), (''organization'', Missing), (''license'', Missing)]) \<and>
   main sample_lib (ok_result batch_text) fresh_world =
     print (Unexpected (ValidationError [(''arena score'', Missing), (''95% CI'', Missing),
            (''votes'', Missing), (''organization'', Missing), (''license'', Missing)]))
       fresh_world"
proof -
  let ?failed = "\<lparr>success = False, extracted_content = None,
      error_message = Some ''net::ERR_TIMED_OUT''\<rparr>"
  let ?cause = "ValidationError [(''arena score'', Missing), (''95% CI'', Missing),
            (''votes'', Missing), (''organization'', Missing), (''license'', Missing)]"
  have it: "py_iter (JInt 42) = Inl TypeError"
    "py_iter (JArr [schema_record, short_record, mistyped_record]) =
       Inr [schema_record, short_record, mistyped_record]"
    by (simp_all add: py_iter_def)
  have refused: "validate_all sample_lib [schema_record, short_record, mistyped_record] =
      Inl ?cause"
    by (simp add: sample_records_evaluated)
  have 1: "main sample_lib ?failed fresh_world =
      print (ScrapeError (Some ''net::ERR_TIMED_OUT'')) fresh_world"
    using failures_reported_by_three_lines[of ?failed sample_lib fresh_world]
    by simp
  have 2: "main sample_lib (ok_result truncated_text) fresh_world = print InvalidJSON fresh_world"
    using failures_reported_by_three_lines
      [of "ok_result truncated_text" sample_lib fresh_world JSONDecodeError _ truncated_text]
      ok_result_fields[of truncated_text] sample_loads_evaluated(7)
    by simp
  have 3: "main sample_lib (ok_result number_text) fresh_world =
      print (Unexpected TypeError) fresh_world"
    using failures_reported_by_three_lines
      [of "ok_result number_text" sample_lib fresh_world TypeError _ number_text "JInt 42"]
      ok_result_fields[of number_text] sample_loads_evaluated(4) it(1)
    by simp
  have 4: "main sample_lib (ok_result batch_text) fresh_world =
      print (Unexpected ?cause) fresh_world"
    using failures_reported_by_three_lines
      [of "ok_result batch_text" sample_lib fresh_world ?cause _ batch_text
        "JArr [schema_record, short_record, mistyped_record]"
        "[schema_record, short_record, mistyped_record]"]
      ok_result_fields[of batch_text] sample_loads_evaluated(3) it(2) refused
    by simp
  from 1 2 3 4 it(1) refused sample_loads_evaluated(7) sample_loads_evaluated(4)
  show ?thesis by blast
qed

text \<open>
  C3, as the claim states it, fails: a refused record, a parsed payload that is not a
  list of objects and a file that cannot be opened are all reported by the one
  unexpected-error line; none of them has a kind of its own.
\<close>

theorem refused_record_reported_as_unexpected:
  "main sample_lib (ok_result batch_text) fresh_world =
     \<lparr>console = [Unexpected (ValidationError [(''arena score'', Missing), (''95% CI'', Missing),
         (''votes'', Missing), (''organization'', Missing), (''license'', Missing)])],
      output_file = None, writable = True\<rparr> \<and>
   main sample_lib (ok_result number_text) fresh_world =
     \<lparr>console = [Unexpected TypeError], output_file = None, writable = True\<rparr> \<and>
   main sample_lib (ok_result schema_text) (fresh_world\<lparr>writable := False\<rparr>) =
     \<lparr>console = [Extracted 1, EntryLine ''X'' ''Acme'' (Finite 1300.5), Unexpected OSError],
      output_file = None, writable = False\<rparr> \<and>
   unexpected_report (last (console (main sample_lib (ok_result batch_text) fresh_world))) \<and>
   unexpected_report (last (console (main sample_lib (ok_result number_text) fresh_world))) \<and>
   unexpected_report (last (console
     (main sample_lib (ok_result schema_text) (fresh_world\<lparr>writable := False\<rparr>))))"
proof -
  let ?cause = "ValidationError [(''arena score'', Missing), (''95% CI'', Missing),
            (''votes'', Missing), (''organization'', Missing), (''license'', Missing)]"
  have it: "py_iter (JInt 42) = Inl TypeError"
    "py_iter (JArr [schema_record, short_record, mistyped_record]) =
       Inr [schema_record, short_record, mistyped_record]"
    "py_iter (JArr [schema_record]) = Inr [schema_record]"
    by (simp_all add: py_iter_def)
  have refused: "validate_all sample_lib [schema_record, short_record, mistyped_record] =
      Inl ?cause"
    by (simp add: sample_records_evaluated)
  have accepted: "validate_all sample_lib [schema_record] = Inr [schema_entry]"
    by (simp add: sample_records_evaluated)
  have 1: "main sample_lib (ok_result batch_text) fresh_world =
     \<lparr>console = [Unexpected ?cause], output_file = None, writable = True\<rparr>"
    using main_validation_raises[OF ok_result_fields sample_loads_evaluated(3) it(2) refused,
        of fresh_world]
    by (simp add: print_def fresh_world_def)
  have 2: "main sample_lib (ok_result number_text) fresh_world =
     \<lparr>console = [Unexpected TypeError], output_file = None, writable = True\<rparr>"
    using main_not_iterable[OF ok_result_fields sample_loads_evaluated(4) it(1), of fresh_world]
    by (simp add: print_def fresh_world_def)
  have 3: "main sample_lib (ok_result schema_text) (fresh_world\<lparr>writable := False\<rparr>) =
     \<lparr>console = [Extracted 1, EntryLine ''X'' ''Acme'' (Finite 1300.5), Unexpected OSError],
      output_file = None, writable = False\<rparr>"
    using main_validated[OF ok_result_fields sample_loads_evaluated(2) it(3) accepted,
        of "fresh_world\<lparr>writable := False\<rparr>"]
    by (simp add: fresh_world_def entry_line_def schema_entry_def)
  show ?thesis
    unfolding 1 2 3 by (simp add: unexpected_report_def)
qed

end
